theory Spec2Isabelle
  imports Complex_Main
begin

section \<open>Amounts, time and errors\<close>

text \<open>
  The Go sources compute money in \<open>float64\<close>. The embedding idealises \<open>float64\<close> as the
  real numbers: \<open>+\<close>, \<open>-\<close>, \<open>*\<close>, \<open>/\<close> are exact, \<open>math.Round\<close> rounds half away from
  zero and \<open>math.Pow\<close> with an integral exponent is exponentiation. NaN, infinities and
  the width of the \<open>DECIMAL(15, 2)\<close> columns are not modelled.
\<close>

type_synonym float64 = real

definition Round :: "float64 \<Rightarrow> float64" where
  \<comment> \<open>\<open>math.Round\<close>: nearest integer, halves away from zero\<close>
  "Round x = (if x < 0 then - of_int \<lfloor>- x + 1 / 2\<rfloor> else of_int \<lfloor>x + 1 / 2\<rfloor>)"

definition Pow :: "float64 \<Rightarrow> int \<Rightarrow> float64" where
  \<comment> \<open>\<open>math.Pow(x, float64(n))\<close> for an \<open>int\<close> n\<close>
  "Pow x n = (if 0 \<le> n then x ^ nat n else 1 / x ^ nat (- n))"

definition float64_to_int :: "float64 \<Rightarrow> int" where
  \<comment> \<open>the conversion \<open>int(x)\<close> of a \<open>float64\<close>: the fraction is dropped\<close>
  "float64_to_int x = (if x < 0 then \<lceil>x\<rceil> else \<lfloor>x\<rfloor>)"

text \<open>
  A \<open>time.Time\<close> is an instant counted in nanoseconds; a \<open>time.Duration\<close> is an \<open>int64\<close>
  count of nanoseconds, and \<open>Time.Sub\<close> saturates at its bounds.
\<close>

type_synonym time = int
type_synonym Duration = int

definition Hour :: Duration where
  "Hour = 60 * 60 * 1000000000"

definition maxDuration :: Duration where
  "maxDuration = 2 ^ 63 - 1"

definition minDuration :: Duration where
  "minDuration = - (2 ^ 63)"

definition Sub :: "time \<Rightarrow> time \<Rightarrow> Duration" where
  "Sub t u = (let d = t - u in
     if maxDuration < d then maxDuration else if d < minDuration then minDuration else d)"

definition After :: "time \<Rightarrow> time \<Rightarrow> bool" where
  "After t u = (u < t)"

definition Hours :: "Duration \<Rightarrow> float64" where
  "Hours d = of_int d / of_int Hour"

text \<open>
  Go errors are values. Every \<open>errors.New\<close> and \<open>fmt.Errorf\<close> of the modelled functions
  is one constructor; the text a wrapper adds in front of a cause is dropped, the cause
  is kept.
\<close>

datatype error =
    DriverError \<comment> \<open>a failure reported by \<open>database/sql\<close>: connection, statement or commit\<close>
  | ErrNoRows \<comment> \<open>\<open>sql.ErrNoRows\<close>\<close>
  | InsufficientFunds \<comment> \<open>"insufficient funds"\<close>
  | NotFound \<comment> \<open>an UPDATE that affected no row: "... not found"\<close>
  | Invalid string \<comment> \<open>a request rejected by its validation\<close>
  | AccessDenied
  | Inactive
  | CurrencyMismatch

section \<open>Models: \<open>internal/models\<close>\<close>

datatype CreditStatus =
  CreditStatusActive | CreditStatusClosed | CreditStatusOverdue | CreditStatusRejected

datatype PaymentStatus =
  PaymentStatusPending | PaymentStatusPaid | PaymentStatusOverdue | PaymentStatusCancelled

record Credit =
  c_ID :: int
  c_UserID :: int
  c_AccountID :: int
  c_Amount :: float64
  c_InterestRate :: float64
  c_TermMonths :: int
  c_MonthlyPayment :: float64
  c_StartDate :: time
  c_EndDate :: time
  c_Status :: CreditStatus

record PaymentSchedule =
  p_ID :: int
  p_CreditID :: int
  p_PaymentDate :: time
  p_PrincipalAmount :: float64
  p_InterestAmount :: float64
  p_TotalAmount :: float64
  p_Status :: PaymentStatus
  p_IsOverdue :: bool
  p_PenaltyAmount :: float64

record CreditRequest =
  r_UserID :: int
  r_Amount :: float64
  r_TermMonths :: int
  r_InterestRate :: float64

definition ValidateCreditRequest :: "CreditRequest \<Rightarrow> error option" where
  "ValidateCreditRequest c =
     (if r_Amount c \<le> 0 then Some (Invalid ''amount must be positive'')
      else if r_TermMonths c < 1 \<or> 360 < r_TermMonths c
        then Some (Invalid ''term must be between 1 and 360 months'')
      else if r_InterestRate c < 0 then Some (Invalid ''interest rate cannot be negative'')
      else None)"

definition CalculateMonthlyPayment :: "float64 \<Rightarrow> float64 \<Rightarrow> int \<Rightarrow> float64" where
  \<comment> \<open>with \<open>termMonths = 0\<close> and a zero rate Go divides by zero; the claims take a positive term\<close>
  "CalculateMonthlyPayment principal0 annualInterestRate termMonths =
     (let monthlyInterestRate = annualInterestRate / 12 / 100 in
      if monthlyInterestRate = 0 then principal0 / of_int termMonths
      else principal0 * monthlyInterestRate * Pow (1 + monthlyInterestRate) termMonths /
             (Pow (1 + monthlyInterestRate) termMonths - 1))"

definition roundToTwoDecimal :: "float64 \<Rightarrow> float64" where
  "roundToTwoDecimal v = Round (v * 100) / 100"

text \<open>
  The loop of \<open>GeneratePaymentSchedule\<close>: \<open>k\<close> iterations are left, \<open>i\<close> is the loop index.
  \<open>addOneMonth\<close> stands for \<open>date.AddDate(0, 1, 0)\<close> of the standard library, which the
  function takes as a parameter here.
\<close>

fun scheduleLoop ::
  "(time \<Rightarrow> time) \<Rightarrow> Credit \<Rightarrow> float64 \<Rightarrow> nat \<Rightarrow> int \<Rightarrow> float64 \<Rightarrow> time \<Rightarrow> PaymentSchedule list"
where
  "scheduleLoop addOneMonth credit monthlyInterestRate 0 i remainingPrincipal paymentDate = []"
| "scheduleLoop addOneMonth credit monthlyInterestRate (Suc k) i remainingPrincipal paymentDate =
     (let interestAmount = remainingPrincipal * monthlyInterestRate;
          principalAmount =
            (if i = c_TermMonths credit - 1 then remainingPrincipal
             else c_MonthlyPayment credit - interestAmount);
          principalAmount = (if principalAmount < 0 then 0 else principalAmount);
          remainingPrincipal = remainingPrincipal - principalAmount;
          paymentScheduleItem = \<lparr>
            p_ID = 0,
            p_CreditID = c_ID credit,
            p_PaymentDate = paymentDate,
            p_PrincipalAmount = roundToTwoDecimal principalAmount,
            p_InterestAmount = roundToTwoDecimal interestAmount,
            p_TotalAmount = roundToTwoDecimal (principalAmount + interestAmount),
            p_Status = PaymentStatusPending,
            p_IsOverdue = False,
            p_PenaltyAmount = 0 \<rparr>
      in paymentScheduleItem #
           scheduleLoop addOneMonth credit monthlyInterestRate k (i + 1) remainingPrincipal
             (addOneMonth paymentDate))"

definition GeneratePaymentSchedule :: "(time \<Rightarrow> time) \<Rightarrow> Credit \<Rightarrow> PaymentSchedule list" where
  "GeneratePaymentSchedule addOneMonth credit =
     scheduleLoop addOneMonth credit (c_InterestRate credit / 12 / 100)
       (nat (c_TermMonths credit)) 0 (c_Amount credit) (c_StartDate credit)"

text \<open>
  \<open>ToCredit\<close> reads the clock once (\<open>startDate\<close>) and adds the term with
  \<open>AddDate(0, TermMonths, 0)\<close>, here the parameter \<open>addMonths\<close>.
\<close>

definition ToCredit ::
  "(time \<Rightarrow> int \<Rightarrow> time) \<Rightarrow> time \<Rightarrow> CreditRequest \<Rightarrow> int \<Rightarrow> float64 \<Rightarrow> Credit" where
  "ToCredit addMonths startDate c accountID baseInterestRate =
     (let interestRate = r_InterestRate c;
          interestRate = (if interestRate = 0 then baseInterestRate + 5 else interestRate);
          endDate = addMonths startDate (r_TermMonths c);
          monthlyPayment = CalculateMonthlyPayment (r_Amount c) interestRate (r_TermMonths c)
      in \<lparr>
        c_ID = 0,
        c_UserID = r_UserID c,
        c_AccountID = accountID,
        c_Amount = r_Amount c,
        c_InterestRate = interestRate,
        c_TermMonths = r_TermMonths c,
        c_MonthlyPayment = roundToTwoDecimal monthlyPayment,
        c_StartDate = startDate,
        c_EndDate = endDate,
        c_Status = CreditStatusActive \<rparr>)"

definition UpdateScheduleStatus :: "time \<Rightarrow> PaymentSchedule \<Rightarrow> PaymentSchedule" where
  \<comment> \<open>\<open>now\<close> is the function's reading of \<open>time.Now()\<close>; the Go code updates the item in place\<close>
  "UpdateScheduleStatus now schedule =
     (if p_Status schedule = PaymentStatusPending \<and> After now (p_PaymentDate schedule) then
        let schedule = schedule\<lparr>p_IsOverdue := True\<rparr>;
            schedule = schedule\<lparr>p_Status := PaymentStatusOverdue\<rparr>;
            daysOverdue = float64_to_int (Hours (Sub now (p_PaymentDate schedule)) / 24)
        in if 1 < daysOverdue
           then schedule\<lparr>p_PenaltyAmount := roundToTwoDecimal (p_TotalAmount schedule * (1 / 10))\<rparr>
           else schedule
      else schedule)"


type_synonym Currency = string

definition CurrencyRUB :: Currency where
  "CurrencyRUB = ''RUB''"

text \<open>
  The columns \<open>account_number\<close>, \<open>account_type\<close>, \<open>created_at\<close> and \<open>updated_at\<close> play no
  part in the functions modelled here and are left out of the records.
\<close>

record Account =
  a_ID :: int
  a_UserID :: int
  a_Balance :: float64
  a_Currency :: Currency
  a_IsActive :: bool

datatype TransactionType =
    TransactionTypeDeposit | TransactionTypeWithdrawal | TransactionTypeTransfer
  | TransactionTypePayment | TransactionTypeFee | TransactionTypeInterest

datatype TransactionStatus =
    TransactionStatusPending | TransactionStatusCompleted
  | TransactionStatusFailed | TransactionStatusCancelled

datatype Description =
    Text string \<comment> \<open>a text taken from the request\<close>
  | CreditPaymentFor int \<comment> \<open>\<open>fmt.Sprintf("Credit payment for credit #%d", credit.ID)\<close>\<close>

record Transaction =
  t_ID :: int
  t_TransactionType :: TransactionType
  t_SourceAccountID :: "int option"
  t_DestinationAccountID :: "int option"
  t_Amount :: float64
  t_Currency :: Currency
  t_Description :: Description
  t_Status :: TransactionStatus
  t_CardID :: "int option"
  t_TransactionDate :: time

record TransferRequest =
  tr_SourceAccountID :: int
  tr_DestinationAccountID :: int
  tr_Amount :: float64
  tr_Description :: string

definition ValidateTransferRequest :: "TransferRequest \<Rightarrow> error option" where
  "ValidateTransferRequest t =
     (if tr_SourceAccountID t = tr_DestinationAccountID t
        then Some (Invalid ''source and destination accounts cannot be the same'')
      else if tr_Amount t \<le> 0 then Some (Invalid ''amount must be positive'')
      else None)"

definition ToTransaction :: "time \<Rightarrow> TransferRequest \<Rightarrow> Transaction" where
  \<comment> \<open>\<open>TransferRequest.ToTransaction\<close>; \<open>now\<close> is its reading of \<open>time.Now()\<close>\<close>
  "ToTransaction now t = \<lparr>
     t_ID = 0,
     t_TransactionType = TransactionTypeTransfer,
     t_SourceAccountID = Some (tr_SourceAccountID t),
     t_DestinationAccountID = Some (tr_DestinationAccountID t),
     t_Amount = tr_Amount t,
     t_Currency = CurrencyRUB,
     t_Description = Text (tr_Description t),
     t_Status = TransactionStatusPending,
     t_CardID = None,
     t_TransactionDate = now \<rparr>"

section \<open>The database and its environment\<close>

text \<open>
  The state the services run against: the four tables, and the two things the code
  cannot control. \<open>faults\<close> lists, for the calls to \<open>database/sql\<close> still to come and in
  their order, whether the call fails (an exhausted list means no further failure).
  \<open>clock\<close> is the last reading of \<open>time.Now()\<close> and \<open>ticks\<close> the nanoseconds that pass
  before each reading to come, so the clock never runs backwards.

  \<open>accounts\<close> and \<open>credits\<close> are keyed by their primary key; \<open>payment_schedules\<close> and
  \<open>transactions\<close> are lists of rows in insertion order. Execution is sequential: row
  locks (\<open>FOR UPDATE\<close>) and concurrent sessions are not modelled, nor are the logger and
  the notification e-mails sent from goroutines.
\<close>

record world =
  accounts :: "int \<rightharpoonup> Account"
  credits :: "int \<rightharpoonup> Credit"
  payment_schedules :: "PaymentSchedule list"
  transactions :: "Transaction list"
  faults :: "bool list"
  clock :: time
  ticks :: "nat list"

definition time_Now :: "world \<Rightarrow> time \<times> world" where
  "time_Now w =
     (case ticks w of
        [] \<Rightarrow> (clock w, w)
      | d # ds \<Rightarrow> (clock w + int d, w\<lparr>clock := clock w + int d, ticks := ds\<rparr>))"

definition driver_call :: "world \<Rightarrow> bool \<times> world" where
  \<comment> \<open>one call to \<open>database/sql\<close>: \<open>True\<close> when it fails\<close>
  "driver_call w = (case faults w of [] \<Rightarrow> (False, w) | f # fs \<Rightarrow> (f, w\<lparr>faults := fs\<rparr>))"

text \<open>
  A \<open>*sql.Tx\<close> holds the statements executed on it until it is committed. The only
  statement the modelled code ever executes on a transaction is the balance update of
  \<open>UpdateBalance\<close>, so a transaction is the list of its pending balance writes.
\<close>

type_synonym Tx = "(int \<times> float64) list"

definition DB_BeginTx :: "world \<Rightarrow> (error + Tx) \<times> world" where
  "DB_BeginTx w =
     (case driver_call w of (True, w1) \<Rightarrow> (Inl DriverError, w1) | (False, w1) \<Rightarrow> (Inr [], w1))"

definition write_balance :: "(int \<rightharpoonup> Account) \<Rightarrow> int \<times> float64 \<Rightarrow> (int \<rightharpoonup> Account)" where
  \<comment> \<open>\<open>UPDATE accounts SET balance = $1 WHERE id = $2\<close>\<close>
  "write_balance tab u =
     (case tab (fst u) of None \<Rightarrow> tab | Some a \<Rightarrow> tab(fst u \<mapsto> a\<lparr>a_Balance := snd u\<rparr>))"

definition Tx_Commit :: "Tx \<Rightarrow> world \<Rightarrow> error option \<times> world" where
  "Tx_Commit tx w =
     (case driver_call w of
        (True, w1) \<Rightarrow> (Some DriverError, w1)
      | (False, w1) \<Rightarrow> (None, w1\<lparr>accounts := foldl write_balance (accounts w1) tx\<rparr>))"

definition Tx_Rollback :: "Tx \<Rightarrow> world \<Rightarrow> world" where
  \<comment> \<open>the pending writes are dropped; every caller ignores the result of \<open>Rollback\<close>\<close>
  "Tx_Rollback tx w = w"

definition Tx_SelectBalance :: "Tx \<Rightarrow> int \<Rightarrow> world \<Rightarrow> (error + float64) \<times> world" where
  \<comment> \<open>\<open>SELECT balance FROM accounts WHERE id = $1 FOR UPDATE\<close> and its \<open>Scan\<close>\<close>
  "Tx_SelectBalance tx id' w =
     (case driver_call w of
        (True, w1) \<Rightarrow> (Inl DriverError, w1)
      | (False, w1) \<Rightarrow>
          (case foldl write_balance (accounts w1) tx id' of
             None \<Rightarrow> (Inl ErrNoRows, w1)
           | Some a \<Rightarrow> (Inr (a_Balance a), w1)))"

definition Tx_UpdateBalance :: "Tx \<Rightarrow> float64 \<Rightarrow> int \<Rightarrow> world \<Rightarrow> (error + Tx) \<times> world" where
  \<comment> \<open>\<open>UPDATE accounts SET balance = $1 WHERE id = $2\<close> executed on the transaction\<close>
  "Tx_UpdateBalance tx newBalance id' w =
     (case driver_call w of
        (True, w1) \<Rightarrow> (Inl DriverError, w1)
      | (False, w1) \<Rightarrow> (Inr (tx @ [(id', newBalance)]), w1))"

section \<open>Repositories: \<open>internal/repository/postgres\<close>\<close>

definition Account_GetByID :: "int \<Rightarrow> world \<Rightarrow> (error + Account) \<times> world" where
  "Account_GetByID id' w =
     (case driver_call w of
        (True, w1) \<Rightarrow> (Inl DriverError, w1)
      | (False, w1) \<Rightarrow>
          (case accounts w1 id' of
             None \<Rightarrow> (Inl ErrNoRows, w1)
           | Some a \<Rightarrow> (Inr (a\<lparr>a_ID := id'\<rparr>), w1)))"

text \<open>
  \<open>AccountRepo.UpdateBalance\<close> opens a transaction of its own on the pool and commits
  it before it returns. Its deferred function rolls back when the variable \<open>err\<close> is set;
  on "insufficient funds" the error is returned without being assigned to \<open>err\<close>, so the
  transaction is left open there. Either way nothing has been written.
\<close>

definition UpdateBalance :: "int \<Rightarrow> float64 \<Rightarrow> world \<Rightarrow> error option \<times> world" where
  "UpdateBalance id' amount w =
     (case DB_BeginTx w of
        (Inl e, w1) \<Rightarrow> (Some e, w1)
      | (Inr tx, w1) \<Rightarrow>
          (case Tx_SelectBalance tx id' w1 of
             (Inl e, w2) \<Rightarrow> (Some e, Tx_Rollback tx w2)
           | (Inr currentBalance, w2) \<Rightarrow>
               (let newBalance = currentBalance + amount in
                if newBalance < 0 then (Some InsufficientFunds, w2)
                else
                  (case Tx_UpdateBalance tx newBalance id' w2 of
                     (Inl e, w3) \<Rightarrow> (Some e, Tx_Rollback tx w3)
                   | (Inr tx', w3) \<Rightarrow>
                       (case Tx_Commit tx' w3 of
                          (Some e, w4) \<Rightarrow> (Some e, Tx_Rollback tx' w4)
                        | (None, w4) \<Rightarrow> (None, w4))))))"

definition Transaction_Create :: "Transaction \<Rightarrow> world \<Rightarrow> (error + int) \<times> world" where
  \<comment> \<open>\<open>INSERT INTO transactions ... RETURNING id\<close>, executed on the pool\<close>
  "Transaction_Create transaction w =
     (case driver_call w of
        (True, w1) \<Rightarrow> (Inl DriverError, w1)
      | (False, w1) \<Rightarrow>
          (let id' = int (length (transactions w1)) + 1 in
           (Inr id', w1\<lparr>transactions := transactions w1 @ [transaction\<lparr>t_ID := id'\<rparr>]\<rparr>)))"

definition Credit_GetByID :: "int \<Rightarrow> world \<Rightarrow> (error + Credit) \<times> world" where
  "Credit_GetByID id' w =
     (case driver_call w of
        (True, w1) \<Rightarrow> (Inl DriverError, w1)
      | (False, w1) \<Rightarrow>
          (case credits w1 id' of
             None \<Rightarrow> (Inl ErrNoRows, w1)
           | Some c \<Rightarrow> (Inr (c\<lparr>c_ID := id'\<rparr>), w1)))"

definition Credit_Update :: "Credit \<Rightarrow> world \<Rightarrow> error option \<times> world" where
  \<comment> \<open>\<open>UPDATE credits SET status = $1, monthly_payment = $2 WHERE id = $3\<close>, on the pool\<close>
  "Credit_Update credit w =
     (case driver_call w of
        (True, w1) \<Rightarrow> (Some DriverError, w1)
      | (False, w1) \<Rightarrow>
          (case credits w1 (c_ID credit) of
             None \<Rightarrow> (Some NotFound, w1)
           | Some c \<Rightarrow>
               (None, w1\<lparr>credits := (credits w1)(c_ID credit \<mapsto>
                  c\<lparr>c_Status := c_Status credit, c_MonthlyPayment := c_MonthlyPayment credit\<rparr>)\<rparr>)))"

definition set_schedule :: "PaymentSchedule \<Rightarrow> PaymentSchedule \<Rightarrow> PaymentSchedule" where
  \<comment> \<open>\<open>SET status = $1, is_overdue = $2, penalty_amount = $3 WHERE id = $4\<close> on one row\<close>
  "set_schedule schedule row =
     (if p_ID row = p_ID schedule
      then row\<lparr>p_Status := p_Status schedule, p_IsOverdue := p_IsOverdue schedule,
                p_PenaltyAmount := p_PenaltyAmount schedule\<rparr>
      else row)"

definition PaymentSchedule_Update :: "PaymentSchedule \<Rightarrow> world \<Rightarrow> error option \<times> world" where
  \<comment> \<open>\<open>UPDATE payment_schedules ...\<close>, executed on the pool\<close>
  "PaymentSchedule_Update schedule w =
     (case driver_call w of
        (True, w1) \<Rightarrow> (Some DriverError, w1)
      | (False, w1) \<Rightarrow>
          (if filter (\<lambda>row. p_ID row = p_ID schedule) (payment_schedules w1) = []
           then (Some NotFound, w1)
           else (None, w1\<lparr>payment_schedules := map (set_schedule schedule) (payment_schedules w1)\<rparr>)))"

definition selectPending :: "time \<Rightarrow> world \<Rightarrow> PaymentSchedule list" where
  \<comment> \<open>\<open>FROM payment_schedules ps JOIN credits c ON ps.credit_id = c.id
      WHERE ps.status = 'PENDING' AND ps.payment_date <= $2 ORDER BY ps.payment_date\<close>\<close>
  "selectPending date w =
     sort_key p_PaymentDate
       (filter (\<lambda>ps. credits w (p_CreditID ps) \<noteq> None \<and>
                     p_Status ps = PaymentStatusPending \<and> p_PaymentDate ps \<le> date)
          (payment_schedules w))"

definition GetPendingPayments :: "time \<Rightarrow> world \<Rightarrow> (error + PaymentSchedule list) \<times> world" where
  "GetPendingPayments date w =
     (case driver_call w of
        (True, w1) \<Rightarrow> (Inl DriverError, w1)
      | (False, w1) \<Rightarrow> (Inr (selectPending date w1), w1))"


section \<open>Services: \<open>internal/service\<close>\<close>

text \<open>
  \<open>TransactionSvc.Transfer\<close>. The transaction \<open>tx\<close> it begins is rolled back by the
  deferred function on every error after \<open>BeginTx\<close> and committed at the end, but the
  two balance updates and the insert of the record go through the repositories, which
  use the pool and not \<open>tx\<close>.
\<close>

definition Transfer :: "TransferRequest \<Rightarrow> int \<Rightarrow> world \<Rightarrow> (error + int) \<times> world" where
  "Transfer transfer userID w =
     (case ValidateTransferRequest transfer of
        Some e \<Rightarrow> (Inl e, w)
      | None \<Rightarrow>
     (case Account_GetByID (tr_SourceAccountID transfer) w of
        (Inl e, w1) \<Rightarrow> (Inl e, w1)
      | (Inr sourceAccount, w1) \<Rightarrow>
     if a_UserID sourceAccount \<noteq> userID then (Inl AccessDenied, w1)
     else if \<not> a_IsActive sourceAccount then (Inl Inactive, w1)
     else if a_Balance sourceAccount < tr_Amount transfer then (Inl InsufficientFunds, w1)
     else
     (case Account_GetByID (tr_DestinationAccountID transfer) w1 of
        (Inl e, w2) \<Rightarrow> (Inl e, w2)
      | (Inr destAccount, w2) \<Rightarrow>
     if \<not> a_IsActive destAccount then (Inl Inactive, w2)
     else if a_Currency sourceAccount \<noteq> a_Currency destAccount then (Inl CurrencyMismatch, w2)
     else
     (case DB_BeginTx w2 of
        (Inl e, w3) \<Rightarrow> (Inl e, w3)
      | (Inr tx, w3) \<Rightarrow>
     (case UpdateBalance (tr_SourceAccountID transfer) (- tr_Amount transfer) w3 of
        (Some e, w4) \<Rightarrow> (Inl e, Tx_Rollback tx w4)
      | (None, w4) \<Rightarrow>
     (case UpdateBalance (tr_DestinationAccountID transfer) (tr_Amount transfer) w4 of
        (Some e, w5) \<Rightarrow> (Inl e, Tx_Rollback tx w5)
      | (None, w5) \<Rightarrow>
     (case time_Now w5 of (now, w6) \<Rightarrow>
     (let transaction = ToTransaction now transfer;
          transaction = transaction\<lparr>t_Currency := a_Currency sourceAccount\<rparr>;
          transaction = transaction\<lparr>t_Status := TransactionStatusCompleted\<rparr>
      in
     (case Transaction_Create transaction w6 of
        (Inl e, w7) \<Rightarrow> (Inl e, Tx_Rollback tx w7)
      | (Inr transactionID, w7) \<Rightarrow>
     (case Tx_Commit tx w7 of
        (Some e, w8) \<Rightarrow> (Inl e, Tx_Rollback tx w8)
      | (None, w8) \<Rightarrow> (Inr transactionID, w8)))))))))))"

text \<open>
  The body of the loop of \<open>CreditSvc.ProcessPayments\<close> for one fetched installment. Every
  \<open>continue\<close> of the source is a branch that returns the state reached so far.
\<close>

definition processPayment :: "PaymentSchedule \<Rightarrow> world \<Rightarrow> world" where
  "processPayment payment w =
     (case Credit_GetByID (p_CreditID payment) w of
        (Inl e, w1) \<Rightarrow> w1
      | (Inr credit, w1) \<Rightarrow>
     (case Account_GetByID (c_AccountID credit) w1 of
        (Inl e, w2) \<Rightarrow> w2
      | (Inr account, w2) \<Rightarrow>
     (case time_Now w2 of (now, w3) \<Rightarrow>
     (let payment = UpdateScheduleStatus now payment;
          totalAmount = p_TotalAmount payment +
            (if p_IsOverdue payment then p_PenaltyAmount payment else 0)
      in
     (case DB_BeginTx w3 of
        (Inl e, w4) \<Rightarrow> w4
      | (Inr tx, w4) \<Rightarrow>
     (case UpdateBalance (a_ID account) (- totalAmount) w4 of
        (Some err, w5) \<Rightarrow>
          (let w6 = Tx_Rollback tx w5 in
           if err = InsufficientFunds then
             (let payment = payment\<lparr>p_Status := PaymentStatusOverdue\<rparr>;
                  payment = payment\<lparr>p_IsOverdue := True\<rparr>;
                  payment =
                    (if p_PenaltyAmount payment = 0
                     then payment\<lparr>p_PenaltyAmount := p_TotalAmount payment * (1 / 10)\<rparr>
                     else payment);
                  w7 = snd (PaymentSchedule_Update payment w6);
                  credit = credit\<lparr>c_Status := CreditStatusOverdue\<rparr>;
                  w8 = snd (Credit_Update credit w7)
              in w8)
           else w6)
      | (None, w5) \<Rightarrow>
     (case time_Now w5 of (transactionDate, w6) \<Rightarrow>
     (let paymentTransaction = \<lparr>
            t_ID = 0,
            t_TransactionType = TransactionTypePayment,
            t_SourceAccountID = Some (a_ID account),
            t_DestinationAccountID = None,
            t_Amount = totalAmount,
            t_Currency = CurrencyRUB,
            t_Description = CreditPaymentFor (c_ID credit),
            t_Status = TransactionStatusCompleted,
            t_CardID = None,
            t_TransactionDate = transactionDate \<rparr>
      in
     (case Transaction_Create paymentTransaction w6 of
        (Inl e, w7) \<Rightarrow> Tx_Rollback tx w7
      | (Inr transactionID, w7) \<Rightarrow>
     (let payment = payment\<lparr>p_Status := PaymentStatusPaid\<rparr> in
     (case PaymentSchedule_Update payment w7 of
        (Some e, w8) \<Rightarrow> Tx_Rollback tx w8
      | (None, w8) \<Rightarrow>
     (case Tx_Commit tx w8 of (e, w9) \<Rightarrow> w9))))))))))))"

definition ProcessPayments :: "world \<Rightarrow> error option \<times> world" where
  "ProcessPayments w =
     (case time_Now w of (today, w1) \<Rightarrow>
     (case GetPendingPayments today w1 of
        (Inl e, w2) \<Rightarrow> (Some e, w2)
      | (Inr pendingPayments, w2) \<Rightarrow>
          (None, foldl (\<lambda>w' payment. processPayment payment w') w2 pendingPayments)))"

section \<open>Reference notions, concrete inputs and the blocks of the sweep\<close>


text \<open>
  A calendar for the concrete evaluations, standing in for \<open>Time.AddDate\<close>: every month
  has thirty days. The general theorems hold for any calendar.
\<close>

definition addMonths30 :: "time \<Rightarrow> int \<Rightarrow> time" where
  "addMonths30 t n = t + n * (30 * 24 * Hour)"

definition addOneMonth30 :: "time \<Rightarrow> time" where
  "addOneMonth30 t = addMonths30 t 1"

text \<open>
  A small bank for the concrete evaluations: two accounts, one credit on the first
  account and its one installment of 100, due at instant 0. The clock stands one hour
  after the due date and the driver reports no failure. The variants differ in the
  balance of the first account or in the failures the driver will report.
\<close>

definition account1 :: Account where
  "account1 = \<lparr>a_ID = 1, a_UserID = 7, a_Balance = 1000, a_Currency = CurrencyRUB, a_IsActive = True\<rparr>"

definition account2 :: Account where
  "account2 = \<lparr>a_ID = 2, a_UserID = 8, a_Balance = 0, a_Currency = CurrencyRUB, a_IsActive = True\<rparr>"

definition credit10 :: Credit where
  "credit10 = \<lparr>c_ID = 10, c_UserID = 7, c_AccountID = 1, c_Amount = 1200, c_InterestRate = 12,
     c_TermMonths = 12, c_MonthlyPayment = 106.62, c_StartDate = - (30 * 24 * Hour),
     c_EndDate = 330 * 24 * Hour, c_Status = CreditStatusActive\<rparr>"

definition installment100 :: PaymentSchedule where
  "installment100 = \<lparr>p_ID = 100, p_CreditID = 10, p_PaymentDate = 0, p_PrincipalAmount = 90,
     p_InterestAmount = 10, p_TotalAmount = 100, p_Status = PaymentStatusPending,
     p_IsOverdue = False, p_PenaltyAmount = 0\<rparr>"


definition world0 :: world where
  "world0 = \<lparr>accounts = [1 \<mapsto> account1, 2 \<mapsto> account2], credits = [10 \<mapsto> credit10],
     payment_schedules = [installment100], transactions = [], faults = [], clock = Hour,
     ticks = []\<rparr>"

definition transfer300 :: TransferRequest where
  "transfer300 = \<lparr>tr_SourceAccountID = 1, tr_DestinationAccountID = 2, tr_Amount = 300,
     tr_Description = ''rent''\<rparr>"

text \<open>
  The eighth call to the driver fails: in a transfer that is the \<open>BeginTx\<close> of the
  second \<open>UpdateBalance\<close>, the credit of the destination.
\<close>

definition world0_credit_fails :: world where
  "world0_credit_fails =
     world0\<lparr>faults := [False, False, False, False, False, False, False, True]\<rparr>"

text \<open>
  The ninth call fails: in a sweep over the one installment that is the insert of the
  Transaction record, after the debit.
\<close>

definition world0_insert_fails :: world where
  "world0_insert_fails =
     world0\<lparr>faults := [False, False, False, False, False, False, False, False, True]\<rparr>"

text \<open>
  The third call fails: for one installment that is the \<open>BeginTx\<close> of the loop body.
\<close>

definition world0_begin_fails :: world where
  "world0_begin_fails = world0\<lparr>faults := [False, False, True]\<rparr>"

text \<open>
  The first account holds one cent less than the installment; and the state after a
  sweep over it, with the account filled up again afterwards.
\<close>

definition world0_short :: world where
  "world0_short = world0\<lparr>accounts := [1 \<mapsto> account1\<lparr>a_Balance := 99.99\<rparr>, 2 \<mapsto> account2]\<rparr>"

definition world0_topped_up :: world where
  "world0_topped_up =
     (snd (ProcessPayments world0_short))\<lparr>accounts := [1 \<mapsto> account1, 2 \<mapsto> account2]\<rparr>"

text \<open>
  The tables of two states agree. The two blocks at the end of the loop body of
  \<open>ProcessPayments\<close> are named so that each can be reasoned about on its own:
  \<open>markOverdue\<close> is the branch taken on "insufficient funds", \<open>collectPayment\<close> the part
  after a successful debit; \<open>processPayment_blocks\<close> below shows that the loop body is
  composed of them. \<open>step_outcome\<close> lists what one pass of the loop body can do to the
  installments and the Transaction records.
\<close>

definition same_tables :: "world \<Rightarrow> world \<Rightarrow> bool" where
  "same_tables w w' \<longleftrightarrow>
     accounts w' = accounts w \<and> credits w' = credits w \<and>
     payment_schedules w' = payment_schedules w \<and> transactions w' = transactions w"

definition markOverdue :: "PaymentSchedule \<Rightarrow> Credit \<Rightarrow> world \<Rightarrow> world" where
  "markOverdue payment credit w6 =
     (let payment = payment\<lparr>p_Status := PaymentStatusOverdue\<rparr>;
          payment = payment\<lparr>p_IsOverdue := True\<rparr>;
          payment =
            (if p_PenaltyAmount payment = 0
             then payment\<lparr>p_PenaltyAmount := p_TotalAmount payment * (1 / 10)\<rparr>
             else payment);
          w7 = snd (PaymentSchedule_Update payment w6);
          credit = credit\<lparr>c_Status := CreditStatusOverdue\<rparr>;
          w8 = snd (Credit_Update credit w7)
      in w8)"

definition collectPayment ::
  "PaymentSchedule \<Rightarrow> Credit \<Rightarrow> Account \<Rightarrow> float64 \<Rightarrow> Tx \<Rightarrow> world \<Rightarrow> world" where
  "collectPayment payment credit account totalAmount tx w5 =
     (case time_Now w5 of (transactionDate, w6) \<Rightarrow>
     (let paymentTransaction = \<lparr>
            t_ID = 0,
            t_TransactionType = TransactionTypePayment,
            t_SourceAccountID = Some (a_ID account),
            t_DestinationAccountID = None,
            t_Amount = totalAmount,
            t_Currency = CurrencyRUB,
            t_Description = CreditPaymentFor (c_ID credit),
            t_Status = TransactionStatusCompleted,
            t_CardID = None,
            t_TransactionDate = transactionDate \<rparr>
      in
     (case Transaction_Create paymentTransaction w6 of
        (Inl e, w7) \<Rightarrow> Tx_Rollback tx w7
      | (Inr transactionID, w7) \<Rightarrow>
     (let payment = payment\<lparr>p_Status := PaymentStatusPaid\<rparr> in
     (case PaymentSchedule_Update payment w7 of
        (Some e, w8) \<Rightarrow> Tx_Rollback tx w8
      | (None, w8) \<Rightarrow>
     (case Tx_Commit tx w8 of (e, w9) \<Rightarrow> w9))))))"

definition step_outcome :: "PaymentSchedule \<Rightarrow> world \<Rightarrow> world \<Rightarrow> bool" where
  "step_outcome payment w w' \<longleftrightarrow>
     (\<forall>i. (credits w' i = None) = (credits w i = None)) \<and>
     (payment_schedules w' = payment_schedules w
      \<or> (\<exists>s. p_ID s = p_ID payment \<and> p_Status s = PaymentStatusOverdue \<and>
            payment_schedules w' = map (set_schedule s) (payment_schedules w) \<and>
            transactions w' = transactions w \<and> accounts w' = accounts w)
      \<or> (\<exists>s t. p_ID s = p_ID payment \<and> p_Status s = PaymentStatusPaid \<and>
            payment_schedules w' = map (set_schedule s) (payment_schedules w) \<and>
            transactions w' = transactions w @ [t]))"

section \<open>The amortization engine\<close>






lemma principal_step:
  assumes "i \<noteq> c_TermMonths c - 1" and "rem * m \<le> c_MonthlyPayment c"
  shows "map p_PrincipalAmount (scheduleLoop f c m (Suc k) i rem d) =
    roundToTwoDecimal (c_MonthlyPayment c - rem * m) #
    map p_PrincipalAmount
      (scheduleLoop f c m k (i + 1) (rem - (c_MonthlyPayment c - rem * m)) (f d))"
  using assms by (simp add: Let_def)

lemma principal_step_numeral:
  assumes "i \<noteq> c_TermMonths c - 1" and "rem * m \<le> c_MonthlyPayment c"
  shows "map p_PrincipalAmount (scheduleLoop f c m (numeral v) i rem d) =
    roundToTwoDecimal (c_MonthlyPayment c - rem * m) #
    map p_PrincipalAmount
      (scheduleLoop f c m (pred_numeral v) (i + 1) (rem - (c_MonthlyPayment c - rem * m)) (f d))"
  using principal_step [OF assms] by (simp only: numeral_eq_Suc)

lemma principal_last:
  assumes "i = c_TermMonths c - 1" and "0 \<le> rem"
  shows "map p_PrincipalAmount (scheduleLoop f c m (Suc k) i rem d) =
    roundToTwoDecimal rem # map p_PrincipalAmount (scheduleLoop f c m k (i + 1) 0 (f d))"
  using assms by (simp add: Let_def)

lemma ToCredit_example:
  "ToCredit addMonths30 0
      \<lparr>r_UserID = 1, r_Amount = 100000, r_TermMonths = 12, r_InterestRate = 12\<rparr> 1 7 =
     \<lparr>c_ID = 0, c_UserID = 1, c_AccountID = 1, c_Amount = 100000, c_InterestRate = 12,
      c_TermMonths = 12, c_MonthlyPayment = 8884.88, c_StartDate = 0,
      c_EndDate = 31104000000000000, c_Status = CreditStatusActive\<rparr>"
  by (simp add: ToCredit_def CalculateMonthlyPayment_def Pow_def power_divide
      roundToTwoDecimal_def Round_def addMonths30_def Hour_def)

text \<open>
  Claim C2 says that the principal components of a generated schedule add up to the
  principal of the credit to within one cent. The credit that \<open>ToCredit\<close> builds for
  100000 at 12% over 12 months (monthly payment 8884.88) gets the twelve principal
  components below; they add up to 100000.02. Each component is rounded on its own,
  while the remaining principal is carried unrounded, so the last installment absorbs
  the drift of the unrounded amounts only.
\<close>

theorem GeneratePaymentSchedule_principal_sum_example:
  "map p_PrincipalAmount (GeneratePaymentSchedule addOneMonth30
     (ToCredit addMonths30 0
        \<lparr>r_UserID = 1, r_Amount = 100000, r_TermMonths = 12, r_InterestRate = 12\<rparr> 1 7)) =
     [7884.88, 7963.73, 8043.37, 8123.80, 8205.04, 8287.09, 8369.96, 8453.66, 8538.20, 8623.58,
      8709.81, 8796.90]
   \<and> sum_list (map p_PrincipalAmount (GeneratePaymentSchedule addOneMonth30
     (ToCredit addMonths30 0
        \<lparr>r_UserID = 1, r_Amount = 100000, r_TermMonths = 12, r_InterestRate = 12\<rparr> 1 7))) =
     100000.02"
  unfolding ToCredit_example
  by (simp add: GeneratePaymentSchedule_def principal_step principal_step_numeral principal_last
      roundToTwoDecimal_def Round_def del: scheduleLoop.simps(2))

text \<open>
  Claim C10, amended. A request with \<open>InterestRate = 0\<close> gets the rate
  \<open>baseInterestRate + 5\<close>; the validation accepts such a request when its amount is
  positive and its term lies between 1 and 360 months. Hence every request that the
  validation accepts yields a credit with a non-zero rate, provided the base rate is
  not \<open>-5\<close>.
\<close>

theorem ToCredit_zero_rate:
  "(r_InterestRate c = 0 \<longrightarrow> c_InterestRate (ToCredit am sd c acc base) = base + 5)
   \<and> (0 < r_Amount c \<and> 1 \<le> r_TermMonths c \<and> r_TermMonths c \<le> 360 \<and> r_InterestRate c = 0
        \<longrightarrow> ValidateCreditRequest c = None)
   \<and> (ValidateCreditRequest c = None \<and> base \<noteq> - 5
        \<longrightarrow> c_InterestRate (ToCredit am sd c acc base) \<noteq> 0)"
  by (auto simp add: ToCredit_def ValidateCreditRequest_def Let_def split: if_splits)

theorem ToCredit_zero_rate_witness:
  "c_InterestRate (ToCredit addMonths30 0
      \<lparr>r_UserID = 1, r_Amount = 1000, r_TermMonths = 12, r_InterestRate = 0\<rparr> 1 7) = 12
   \<and> ValidateCreditRequest
        \<lparr>r_UserID = 1, r_Amount = 1000, r_TermMonths = 12, r_InterestRate = 0\<rparr> = None"
  using ToCredit_zero_rate
    [of "\<lparr>r_UserID = 1, r_Amount = 1000, r_TermMonths = 12, r_InterestRate = 0\<rparr>"
      addMonths30 0 1 7]
  by simp

text \<open>
  The claim as stated fails when the rate source returns \<open>-5\<close>: the accepted request
  below yields a credit with the rate 0, and its monthly payment comes from the
  zero-rate branch (1000 / 12, rounded).
\<close>

theorem ToCredit_zero_rate_counterexample:
  "ValidateCreditRequest
      \<lparr>r_UserID = 1, r_Amount = 1000, r_TermMonths = 12, r_InterestRate = 0\<rparr> = None
   \<and> c_InterestRate (ToCredit addMonths30 0
      \<lparr>r_UserID = 1, r_Amount = 1000, r_TermMonths = 12, r_InterestRate = 0\<rparr> 1 (- 5)) = 0
   \<and> c_MonthlyPayment (ToCredit addMonths30 0
      \<lparr>r_UserID = 1, r_Amount = 1000, r_TermMonths = 12, r_InterestRate = 0\<rparr> 1 (- 5)) = 83.33"
  by (simp add: ToCredit_def ValidateCreditRequest_def CalculateMonthlyPayment_def
      roundToTwoDecimal_def Round_def)

section \<open>The payment schedule state machine\<close>





lemma UpdateScheduleStatus_frame:
  "p_ID (UpdateScheduleStatus now s) = p_ID s \<and> p_TotalAmount (UpdateScheduleStatus now s) = p_TotalAmount s
   \<and> p_CreditID (UpdateScheduleStatus now s) = p_CreditID s"
  by (simp add: UpdateScheduleStatus_def Let_def)


lemma UpdateScheduleStatus_installment100:
  "UpdateScheduleStatus Hour installment100 =
     installment100\<lparr>p_IsOverdue := True, p_Status := PaymentStatusOverdue\<rparr>"
  by (simp add: UpdateScheduleStatus_def After_def Hours_def Sub_def Hour_def float64_to_int_def
      maxDuration_def minDuration_def installment100_def)

lemma installment100_sel:
  "p_ID installment100 = 100" "p_CreditID installment100 = 10" "p_PaymentDate installment100 = 0"
  "p_TotalAmount installment100 = 100" "p_Status installment100 = PaymentStatusPending"
  "p_IsOverdue installment100 = False" "p_PenaltyAmount installment100 = 0"
  by (simp_all add: installment100_def)

lemma Hour_nonneg: "0 \<le> Hour"
  by (simp add: Hour_def)

section \<open>The account ledger\<close>

lemma driver_call_no_faults: "faults w = [] \<Longrightarrow> driver_call w = (False, w)"
  by (simp add: driver_call_def)



text \<open>
  Claim C1 says that a transfer whose debit succeeds and whose credit fails leaves the
  source balance as it was. In the evaluation below user 7 transfers 300 from account 1
  (balance 1000) to account 2 and the driver fails when the credit of the destination
  begins its transaction. \<open>Transfer\<close> returns the error, and the source account holds
  700: the debit was committed by \<open>UpdateBalance\<close> in a transaction of its own, and the
  rollback of the outer transaction has nothing to undo. The destination still holds 0
  and no Transaction record was written.
\<close>

theorem Transfer_credit_failure_example:
  "fst (Transfer transfer300 7 world0_credit_fails) = Inl DriverError
   \<and> map_option a_Balance (accounts world0_credit_fails 1) = Some 1000
   \<and> map_option a_Balance (accounts (snd (Transfer transfer300 7 world0_credit_fails)) 1) =
        Some 700
   \<and> map_option a_Balance (accounts (snd (Transfer transfer300 7 world0_credit_fails)) 2) =
        Some 0
   \<and> transactions (snd (Transfer transfer300 7 world0_credit_fails)) = []"
  by (simp add: Transfer_def ValidateTransferRequest_def Account_GetByID_def UpdateBalance_def
      DB_BeginTx_def Tx_SelectBalance_def Tx_UpdateBalance_def Tx_Commit_def Tx_Rollback_def
      driver_call_def write_balance_def world0_def world0_credit_fails_def account1_def
      account2_def transfer300_def CurrencyRUB_def Let_def)

section \<open>The payment collection sweep\<close>

subsection \<open>What each database operation leaves unchanged\<close>

lemma same_tables_refl: "same_tables w w"
  by (simp add: same_tables_def)

lemma same_tables_trans: "same_tables w w' \<Longrightarrow> same_tables w' w'' \<Longrightarrow> same_tables w w''"
  by (simp add: same_tables_def)

lemma driver_call_frame: "driver_call w = (f, w') \<Longrightarrow> same_tables w w'"
  by (auto simp add: driver_call_def same_tables_def split: list.splits)

lemma time_Now_frame: "time_Now w = (t, w') \<Longrightarrow> same_tables w w'"
  by (auto simp add: time_Now_def same_tables_def split: list.splits)

lemma time_Now_tables:
  "time_Now w = (t, w') \<Longrightarrow>
     accounts w' = accounts w \<and> credits w' = credits w \<and>
     payment_schedules w' = payment_schedules w \<and> transactions w' = transactions w \<and>
     faults w' = faults w"
  by (auto simp add: time_Now_def split: list.splits)

lemma Credit_GetByID_frame: "Credit_GetByID i w = (r, w') \<Longrightarrow> same_tables w w'"
  by (auto simp add: Credit_GetByID_def split: prod.splits bool.splits option.splits
      dest: driver_call_frame)

lemma Account_GetByID_frame: "Account_GetByID i w = (r, w') \<Longrightarrow> same_tables w w'"
  by (auto simp add: Account_GetByID_def split: prod.splits bool.splits option.splits
      dest: driver_call_frame)

lemma DB_BeginTx_frame: "DB_BeginTx w = (r, w') \<Longrightarrow> same_tables w w' \<and> (\<forall>tx. r = Inr tx \<longrightarrow> tx = [])"
  by (auto simp add: DB_BeginTx_def split: prod.splits bool.splits dest: driver_call_frame)

lemma Tx_Commit_empty_frame: "Tx_Commit [] w = (r, w') \<Longrightarrow> same_tables w w'"
  by (auto simp add: Tx_Commit_def same_tables_def split: prod.splits bool.splits
      dest!: driver_call_frame)

lemma UpdateBalance_frame:
  "UpdateBalance i amt w = (r, w') \<Longrightarrow>
     credits w' = credits w \<and> payment_schedules w' = payment_schedules w \<and>
     transactions w' = transactions w \<and> (r \<noteq> None \<longrightarrow> accounts w' = accounts w)"
  by (auto simp add: UpdateBalance_def DB_BeginTx_def Tx_SelectBalance_def Tx_UpdateBalance_def
      Tx_Commit_def Tx_Rollback_def same_tables_def Let_def
      split: prod.splits bool.splits option.splits sum.splits if_splits
      dest!: driver_call_frame)

lemma Transaction_Create_frame:
  "Transaction_Create t w = (r, w') \<Longrightarrow>
     accounts w' = accounts w \<and> credits w' = credits w \<and>
     payment_schedules w' = payment_schedules w \<and>
     (case r of Inl e \<Rightarrow> transactions w' = transactions w
      | Inr i \<Rightarrow> transactions w' = transactions w @ [t\<lparr>t_ID := i\<rparr>])"
  by (auto simp add: Transaction_Create_def same_tables_def Let_def
      split: prod.splits bool.splits dest!: driver_call_frame)

lemma PaymentSchedule_Update_frame:
  "PaymentSchedule_Update s w = (r, w') \<Longrightarrow>
     accounts w' = accounts w \<and> credits w' = credits w \<and> transactions w' = transactions w \<and>
     (case r of Some e \<Rightarrow> payment_schedules w' = payment_schedules w
      | None \<Rightarrow> payment_schedules w' = map (set_schedule s) (payment_schedules w))"
  by (auto simp add: PaymentSchedule_Update_def same_tables_def
      split: prod.splits bool.splits if_splits dest!: driver_call_frame)

lemma Credit_Update_frame:
  "Credit_Update c w = (r, w') \<Longrightarrow>
     accounts w' = accounts w \<and> payment_schedules w' = payment_schedules w \<and>
     transactions w' = transactions w \<and> (\<forall>i. (credits w' i = None) = (credits w i = None))"
  by (auto simp add: Credit_Update_def same_tables_def
      split: prod.splits bool.splits option.splits if_splits dest!: driver_call_frame)


lemma set_selectPending:
  "set (selectPending date w) =
     {ps \<in> set (payment_schedules w). credits w (p_CreditID ps) \<noteq> None \<and>
        p_Status ps = PaymentStatusPending \<and> p_PaymentDate ps \<le> date}"
  by (auto simp add: selectPending_def)

lemma selectPending_same: "same_tables w w' \<Longrightarrow> selectPending date w' = selectPending date w"
  by (simp add: selectPending_def same_tables_def)

lemma set_schedule_id: "p_ID (set_schedule s r) = p_ID r"
  by (simp add: set_schedule_def)

lemma set_schedule_other: "p_ID r \<noteq> p_ID s \<Longrightarrow> set_schedule s r = r"
  by (simp add: set_schedule_def)

lemma set_schedule_status: "p_ID r = p_ID s \<Longrightarrow> p_Status (set_schedule s r) = p_Status s"
  by (simp add: set_schedule_def)


subsection \<open>One pass of the loop body\<close>

lemma processPayment_blocks:
  "processPayment payment w =
     (case Credit_GetByID (p_CreditID payment) w of
        (Inl e, w1) \<Rightarrow> w1
      | (Inr credit, w1) \<Rightarrow>
     (case Account_GetByID (c_AccountID credit) w1 of
        (Inl e, w2) \<Rightarrow> w2
      | (Inr account, w2) \<Rightarrow>
     (case time_Now w2 of (now, w3) \<Rightarrow>
     (let payment = UpdateScheduleStatus now payment;
          totalAmount = p_TotalAmount payment +
            (if p_IsOverdue payment then p_PenaltyAmount payment else 0)
      in
     (case DB_BeginTx w3 of
        (Inl e, w4) \<Rightarrow> w4
      | (Inr tx, w4) \<Rightarrow>
     (case UpdateBalance (a_ID account) (- totalAmount) w4 of
        (Some err, w5) \<Rightarrow>
          (if err = InsufficientFunds then markOverdue payment credit w5 else w5)
      | (None, w5) \<Rightarrow> collectPayment payment credit account totalAmount tx w5))))))"
  unfolding processPayment_def markOverdue_def collectPayment_def Tx_Rollback_def
  by (simp add: Let_def split: prod.splits sum.splits option.splits)

lemma markOverdue_outcome:
  "transactions (markOverdue payment credit w) = transactions w \<and>
   accounts (markOverdue payment credit w) = accounts w \<and>
   (\<forall>i. (credits (markOverdue payment credit w) i = None) = (credits w i = None)) \<and>
   (payment_schedules (markOverdue payment credit w) = payment_schedules w \<or>
    (\<exists>s. p_ID s = p_ID payment \<and> p_Status s = PaymentStatusOverdue \<and>
       payment_schedules (markOverdue payment credit w) = map (set_schedule s) (payment_schedules w)))"
proof -
  define s where "s = (let p = payment\<lparr>p_Status := PaymentStatusOverdue, p_IsOverdue := True\<rparr> in
      if p_PenaltyAmount p = 0 then p\<lparr>p_PenaltyAmount := p_TotalAmount p * (1 / 10)\<rparr> else p)"
  obtain r7 w7 where u7: "PaymentSchedule_Update s w = (r7, w7)"
    by (cases "PaymentSchedule_Update s w")
  obtain r8 w8 where u8: "Credit_Update (credit\<lparr>c_Status := CreditStatusOverdue\<rparr>) w7 = (r8, w8)"
    by (cases "Credit_Update (credit\<lparr>c_Status := CreditStatusOverdue\<rparr>) w7")
  have res: "markOverdue payment credit w = w8"
    using u7 u8 by (simp add: markOverdue_def s_def Let_def)
  have sp: "p_ID s = p_ID payment" "p_Status s = PaymentStatusOverdue"
    by (simp_all add: s_def Let_def)
  show ?thesis
    unfolding res
    using PaymentSchedule_Update_frame [OF u7] Credit_Update_frame [OF u8] sp
    by (cases r7) auto
qed

lemma collectPayment_outcome:
  "credits (collectPayment payment credit account amt [] w) = credits w \<and>
   accounts (collectPayment payment credit account amt [] w) = accounts w \<and>
   ((payment_schedules (collectPayment payment credit account amt [] w) = payment_schedules w \<and>
     (transactions (collectPayment payment credit account amt [] w) = transactions w \<or>
      (\<exists>t. transactions (collectPayment payment credit account amt [] w) = transactions w @ [t])))
    \<or> (\<exists>s t. p_ID s = p_ID payment \<and> p_Status s = PaymentStatusPaid \<and> t_Amount t = amt \<and>
          payment_schedules (collectPayment payment credit account amt [] w) =
            map (set_schedule s) (payment_schedules w) \<and>
          transactions (collectPayment payment credit account amt [] w) = transactions w @ [t]))"
proof -
  obtain d w6 where c6: "time_Now w = (d, w6)" by (cases "time_Now w")
  define t where "t = \<lparr>t_ID = 0, t_TransactionType = TransactionTypePayment,
      t_SourceAccountID = Some (a_ID account), t_DestinationAccountID = None, t_Amount = amt,
      t_Currency = CurrencyRUB, t_Description = CreditPaymentFor (c_ID credit),
      t_Status = TransactionStatusCompleted, t_CardID = None, t_TransactionDate = d\<rparr>"
  obtain r7 w7 where c7: "Transaction_Create t w6 = (r7, w7)" by (cases "Transaction_Create t w6")
  define s where "s = payment\<lparr>p_Status := PaymentStatusPaid\<rparr>"
  obtain r8 w8 where c8: "PaymentSchedule_Update s w7 = (r8, w8)"
    by (cases "PaymentSchedule_Update s w7")
  obtain r9 w9 where c9: "Tx_Commit [] w8 = (r9, w9)" by (cases "Tx_Commit [] w8")
  note f6 = time_Now_frame [OF c6, unfolded same_tables_def]
  note f7 = Transaction_Create_frame [OF c7]
  note f8 = PaymentSchedule_Update_frame [OF c8]
  note f9 = Tx_Commit_empty_frame [OF c9, unfolded same_tables_def]
  have sp: "p_ID s = p_ID payment" "p_Status s = PaymentStatusPaid"
    by (simp_all add: s_def)
  show ?thesis
  proof (cases r7)
    case (Inl e)
    then have "collectPayment payment credit account amt [] w = w7"
      using c6 c7 by (simp add: collectPayment_def t_def Tx_Rollback_def)
    then show ?thesis using f6 f7 Inl by simp
  next
    case (Inr i)
    show ?thesis
    proof (cases r8)
      case (Some e)
      then have "collectPayment payment credit account amt [] w = w8"
        using c6 c7 c8 Inr by (simp add: collectPayment_def t_def s_def Tx_Rollback_def)
      then show ?thesis using f6 f7 f8 Inr Some by simp
    next
      case None
      then have res: "collectPayment payment credit account amt [] w = w9"
        using c6 c7 c8 c9 Inr by (simp add: collectPayment_def t_def s_def Tx_Rollback_def)
      have "t_Amount (t\<lparr>t_ID := i\<rparr>) = amt" by (simp add: t_def)
      then show ?thesis unfolding res using f6 f7 f8 f9 Inr None sp by auto
    qed
  qed
qed

lemma step_outcome_same: "same_tables w w' \<Longrightarrow> step_outcome payment w w'"
  by (simp add: step_outcome_def same_tables_def)

lemma step_outcome_pre: "same_tables w w0 \<Longrightarrow> step_outcome payment w0 w' \<Longrightarrow> step_outcome payment w w'"
  by (simp add: step_outcome_def same_tables_def)

lemma processPayment_outcome: "step_outcome payment w (processPayment payment w)"
proof -
  obtain r1 w1 where c1: "Credit_GetByID (p_CreditID payment) w = (r1, w1)"
    by (cases "Credit_GetByID (p_CreditID payment) w")
  note f1 = Credit_GetByID_frame [OF c1]
  show ?thesis
  proof (cases r1)
    case (Inl e)
    have "processPayment payment w = w1"
      by (simp only: processPayment_blocks c1 Inl prod.case sum.case)
    then show ?thesis using f1 by (simp add: step_outcome_same)
  next
    case r1: (Inr credit)
    obtain r2 w2 where c2: "Account_GetByID (c_AccountID credit) w1 = (r2, w2)"
      by (cases "Account_GetByID (c_AccountID credit) w1")
    note f2 = same_tables_trans [OF f1 Account_GetByID_frame [OF c2]]
    show ?thesis
    proof (cases r2)
      case (Inl e)
      have "processPayment payment w = w2"
        by (simp only: processPayment_blocks c1 r1 c2 Inl prod.case sum.case)
      then show ?thesis using f2 by (simp add: step_outcome_same)
    next
      case r2: (Inr account)
      obtain now w3 where c3: "time_Now w2 = (now, w3)" by (cases "time_Now w2")
      note f3 = same_tables_trans [OF f2 time_Now_frame [OF c3]]
      define p1 where "p1 = UpdateScheduleStatus now payment"
      define amt where "amt = p_TotalAmount p1 + (if p_IsOverdue p1 then p_PenaltyAmount p1 else 0)"
      obtain r4 w4 where c4: "DB_BeginTx w3 = (r4, w4)" by (cases "DB_BeginTx w3")
      note f4 = same_tables_trans [OF f3 conjunct1 [OF DB_BeginTx_frame [OF c4]]]
      show ?thesis
      proof (cases r4)
        case (Inl e)
        have "processPayment payment w = w4"
          by (simp only: processPayment_blocks c1 r1 c2 r2 c3 Let_def c4 Inl prod.case sum.case)
        then show ?thesis using f4 by (simp add: step_outcome_same)
      next
        case r4: (Inr tx)
        have tx: "tx = []" using DB_BeginTx_frame [OF c4] r4 by simp
        obtain r5 w5 where c5: "UpdateBalance (a_ID account) (- amt) w4 = (r5, w5)"
          by (cases "UpdateBalance (a_ID account) (- amt) w4")
        note f5 = UpdateBalance_frame [OF c5]
        show ?thesis
        proof (cases r5)
          case (Some err)
          then have a5: "same_tables w4 w5" using f5 by (simp add: same_tables_def)
          note f5' = same_tables_trans [OF f4 a5]
          have res: "processPayment payment w =
              (if err = InsufficientFunds then markOverdue p1 credit w5 else w5)"
            by (simp only: processPayment_blocks c1 r1 c2 r2 c3 Let_def c4 r4
                p1_def [symmetric] amt_def [symmetric] c5 Some prod.case sum.case option.case)
          show ?thesis
          proof (cases "err = InsufficientFunds")
            case True
            have "p_ID p1 = p_ID payment" by (simp add: p1_def UpdateScheduleStatus_frame)
            then have "step_outcome payment w5 (markOverdue p1 credit w5)"
              using markOverdue_outcome [of p1 credit w5] by (auto simp add: step_outcome_def)
            then show ?thesis using res True f5' by (simp add: step_outcome_pre)
          next
            case False
            then show ?thesis using res f5' by (simp add: step_outcome_same)
          qed
        next
          case None
          have res: "processPayment payment w = collectPayment p1 credit account amt [] w5"
            by (simp only: processPayment_blocks c1 r1 c2 r2 c3 Let_def c4 r4
                p1_def [symmetric] amt_def [symmetric] c5 None tx prod.case sum.case option.case)
          have pid: "p_ID p1 = p_ID payment" by (simp add: p1_def UpdateScheduleStatus_frame)
          have cr: "credits w5 = credits w" "payment_schedules w5 = payment_schedules w"
            "transactions w5 = transactions w"
            using f5 f4 by (simp_all add: same_tables_def)
          show ?thesis
            unfolding res step_outcome_def
            using collectPayment_outcome [of p1 credit account amt w5] pid cr
            by auto
        qed
      qed
    qed
  qed
qed


lemma processPayment_keeps:
  assumes "p_ID payment \<noteq> p_ID row" and "row \<in> set (payment_schedules w)"
  shows "row \<in> set (payment_schedules (processPayment payment w))"
proof -
  have "\<And>s :: PaymentSchedule.
      p_ID s = p_ID payment \<Longrightarrow> row \<in> set (map (set_schedule s) (payment_schedules w))"
  proof -
    fix s :: PaymentSchedule assume "p_ID s = p_ID payment"
    then have "set_schedule s row = row" using assms(1) by (simp add: set_schedule_other)
    then show "row \<in> set (map (set_schedule s) (payment_schedules w))"
      using assms(2) by (metis image_eqI set_map)
  qed
  then show ?thesis
    using processPayment_outcome [of payment w] assms(2)
    by (auto simp add: step_outcome_def)
qed

lemma processPayment_credits_dom:
  "(credits (processPayment payment w) i = None) = (credits w i = None)"
  using processPayment_outcome [of payment w] by (simp add: step_outcome_def)

lemma processPayment_insufficient_step:
  assumes nf: "faults w = []"
    and row: "payment \<in> set (payment_schedules w)"
    and cr: "credits w (p_CreditID payment) = Some credit"
    and ac: "accounts w (c_AccountID credit) = Some account"
    and tn: "time_Now w = (now, w3)"
    and due: "due = UpdateScheduleStatus now payment"
    and short: "a_Balance account <
                  p_TotalAmount due + (if p_IsOverdue due then p_PenaltyAmount due else 0)"
    and final: "final = (if p_PenaltyAmount due = 0
        then due\<lparr>p_Status := PaymentStatusOverdue, p_IsOverdue := True,
                 p_PenaltyAmount := p_TotalAmount due * (1 / 10)\<rparr>
        else due\<lparr>p_Status := PaymentStatusOverdue, p_IsOverdue := True\<rparr>)"
  shows "processPayment payment w =
      w3\<lparr>payment_schedules := map (set_schedule final) (payment_schedules w),
         credits := (credits w)(p_CreditID payment \<mapsto>
            credit\<lparr>c_Status := CreditStatusOverdue\<rparr>)\<rparr>"
proof -
  have w3: "accounts w3 = accounts w" "credits w3 = credits w"
    "payment_schedules w3 = payment_schedules w" "transactions w3 = transactions w"
    "faults w3 = []"
    using time_Now_tables [OF tn] nf by simp_all
  have ub: "\<And>amt. a_Balance account + amt < 0 \<Longrightarrow>
      UpdateBalance (c_AccountID credit) amt w3 = (Some InsufficientFunds, w3)"
    using ac w3 by (simp add: UpdateBalance_def DB_BeginTx_def Tx_SelectBalance_def
        driver_call_no_faults Let_def)
  have ne: "filter (\<lambda>row. p_ID row = p_ID payment) (payment_schedules w3) \<noteq> []"
    using row w3 by (auto simp add: filter_empty_conv)
  have did: "p_ID due = p_ID payment"
    by (simp add: due UpdateScheduleStatus_frame)
  have upd: "\<And>s. p_ID s = p_ID payment \<Longrightarrow> PaymentSchedule_Update s w3 =
      (None, w3\<lparr>payment_schedules := map (set_schedule s) (payment_schedules w)\<rparr>)"
    using ne w3 by (simp add: PaymentSchedule_Update_def driver_call_no_faults)
  have cupd: "\<And>w'. faults w' = [] \<Longrightarrow> credits w' = credits w \<Longrightarrow>
      Credit_Update (credit\<lparr>c_ID := p_CreditID payment, c_Status := CreditStatusOverdue\<rparr>) w' =
      (None, w'\<lparr>credits := (credits w)(p_CreditID payment \<mapsto>
            credit\<lparr>c_Status := CreditStatusOverdue\<rparr>)\<rparr>)"
    using cr by (simp add: Credit_Update_def driver_call_no_faults)
  show ?thesis
  proof (cases "p_IsOverdue due")
    case True
    then have lt: "a_Balance account + (- p_TotalAmount due - p_PenaltyAmount due) < 0"
      using short by simp
    show ?thesis
      using True ub [OF lt]
      by (simp add: processPayment_def Credit_GetByID_def Account_GetByID_def
          driver_call_no_faults nf cr ac tn Let_def due [symmetric] DB_BeginTx_def w3
          Tx_Rollback_def final upd cupd did)
  next
    case False
    then have lt: "a_Balance account + (- p_TotalAmount due) < 0"
      using short by simp
    show ?thesis
      using False ub [OF lt]
      by (simp add: processPayment_def Credit_GetByID_def Account_GetByID_def
          driver_call_no_faults nf cr ac tn Let_def due [symmetric] DB_BeginTx_def w3
          Tx_Rollback_def final upd cupd did)
  qed
qed

lemma processPayment_begin_fails:
  assumes cr: "credits w (p_CreditID payment) = Some credit"
    and ac: "accounts w (c_AccountID credit) = Some account"
    and fl: "faults w = False # False # True # fs"
  shows "same_tables w (processPayment payment w)"
  using assms
  by (simp add: processPayment_blocks Credit_GetByID_def Account_GetByID_def DB_BeginTx_def
      driver_call_def time_Now_def same_tables_def Let_def split: list.splits)


lemmas db_defs = Account_GetByID_def Credit_GetByID_def UpdateBalance_def
      DB_BeginTx_def Tx_SelectBalance_def Tx_UpdateBalance_def Tx_Commit_def Tx_Rollback_def
      Transaction_Create_def PaymentSchedule_Update_def Credit_Update_def GetPendingPayments_def
      selectPending_def set_schedule_def time_Now_def
      driver_call_def write_balance_def



subsection \<open>The whole sweep\<close>






lemma sweep_insert_fails:
  "fst (ProcessPayments world0_insert_fails) = None
   \<and> accounts (snd (ProcessPayments world0_insert_fails)) 1 = Some (account1\<lparr>a_Balance := 900\<rparr>)
   \<and> transactions (snd (ProcessPayments world0_insert_fails)) = []
   \<and> payment_schedules (snd (ProcessPayments world0_insert_fails)) = [installment100]
   \<and> credits (snd (ProcessPayments world0_insert_fails)) = credits world0
   \<and> faults (snd (ProcessPayments world0_insert_fails)) = []
   \<and> clock (snd (ProcessPayments world0_insert_fails)) = Hour
   \<and> ticks (snd (ProcessPayments world0_insert_fails)) = []"
  by (simp add: ProcessPayments_def processPayment_def db_defs Let_def world0_def world0_insert_fails_def
     UpdateScheduleStatus_installment100 account1_def credit10_def installment100_sel Hour_nonneg)


lemma sweep_world0_short:
  "fst (ProcessPayments world0_short) = None
   \<and> accounts (snd (ProcessPayments world0_short)) 1 = Some (account1\<lparr>a_Balance := 99.99\<rparr>)
   \<and> transactions (snd (ProcessPayments world0_short)) = []
   \<and> payment_schedules (snd (ProcessPayments world0_short)) =
       [installment100\<lparr>p_IsOverdue := True, p_Status := PaymentStatusOverdue, p_PenaltyAmount := 10\<rparr>]
   \<and> credits (snd (ProcessPayments world0_short)) 10 = Some (credit10\<lparr>c_Status := CreditStatusOverdue\<rparr>)
   \<and> faults (snd (ProcessPayments world0_short)) = []
   \<and> clock (snd (ProcessPayments world0_short)) = Hour
   \<and> ticks (snd (ProcessPayments world0_short)) = []"
  by (simp add: ProcessPayments_def processPayment_def db_defs Let_def world0_def world0_short_def
     UpdateScheduleStatus_installment100 account1_def credit10_def installment100_sel Hour_nonneg)

text \<open>
  Claim C8 says that all writes for one installment happen inside that installment's own
  transaction, so that a failure in the middle leaves no partial write. In the
  evaluation below the sweep finds the one installment of 100 due, debits the account
  (balance 1000), and the driver fails on the insert of the Transaction record. The
  sweep returns no error; the account holds 900, there is no Transaction record and the
  installment is still PENDING: the debit was committed by \<open>UpdateBalance\<close> on its own and
  the rollback of the loop's transaction undoes nothing. The next sweep therefore
  collects the installment again: the account ends at 800, with one Transaction record
  of 100 and the installment PAID.
\<close>

theorem ProcessPayments_partial_write_example:
  "fst (ProcessPayments world0_insert_fails) = None
   \<and> map_option a_Balance (accounts world0_insert_fails 1) = Some 1000
   \<and> map_option a_Balance (accounts (snd (ProcessPayments world0_insert_fails)) 1) = Some 900
   \<and> transactions (snd (ProcessPayments world0_insert_fails)) = []
   \<and> map p_Status (payment_schedules (snd (ProcessPayments world0_insert_fails))) =
        [PaymentStatusPending]
   \<and> map_option a_Balance
        (accounts (snd (ProcessPayments (snd (ProcessPayments world0_insert_fails)))) 1) = Some 800
   \<and> map t_Amount (transactions (snd (ProcessPayments (snd (ProcessPayments world0_insert_fails)))))
        = [100]
   \<and> map p_Status (payment_schedules (snd (ProcessPayments (snd (ProcessPayments world0_insert_fails)))))
        = [PaymentStatusPaid]"
proof -
  obtain w1 where w1: "w1 = snd (ProcessPayments world0_insert_fails)" by simp
  have f: "accounts w1 1 = Some (account1\<lparr>a_Balance := 900\<rparr>)" "transactions w1 = []"
    "payment_schedules w1 = [installment100]" "credits w1 = credits world0" "faults w1 = []"
    "clock w1 = Hour" "ticks w1 = []"
    using sweep_insert_fails by (simp_all add: w1)
  have s2: "map_option a_Balance (accounts (snd (ProcessPayments w1)) 1) = Some 800
     \<and> map t_Amount (transactions (snd (ProcessPayments w1))) = [100]
     \<and> map p_Status (payment_schedules (snd (ProcessPayments w1))) = [PaymentStatusPaid]"
    by (simp add: ProcessPayments_def processPayment_def db_defs Let_def f world0_def
     UpdateScheduleStatus_installment100 account1_def credit10_def installment100_sel Hour_nonneg)
  show ?thesis using sweep_insert_fails s2 unfolding w1
    by (simp add: world0_insert_fails_def world0_def account1_def installment100_def)
qed



text \<open>
  Claim C9, amended. Take a PENDING installment of the table whose credit and account
  exist. When the loop body cannot open its transaction it leaves every table as it
  was, so the installment is fetched again by any later sweep whose date has reached
  its due date. When instead the debit fails for insufficient funds (the driver
  reporting no failure), no later fetch returns the installment, at any date: it is
  OVERDUE, and the fetch takes PENDING installments only. The passes of the loop body
  for the other installments of the run leave the installment and its credit in place.
\<close>

theorem processPayment_retry:
  assumes row: "payment \<in> set (payment_schedules w)"
    and pend: "p_Status payment = PaymentStatusPending"
    and cr: "credits w (p_CreditID payment) = Some credit"
    and ac: "accounts w (c_AccountID credit) = Some account"
    and due: "due = UpdateScheduleStatus (fst (time_Now w)) payment"
  shows "(faults w = False # False # True # fs \<longrightarrow>
            same_tables w (processPayment payment w) \<and>
            (\<forall>date. p_PaymentDate payment \<le> date \<longrightarrow>
               payment \<in> set (selectPending date (processPayment payment w))))
       \<and> (faults w = [] \<and>
          a_Balance account <
            p_TotalAmount due + (if p_IsOverdue due then p_PenaltyAmount due else 0) \<longrightarrow>
            (\<forall>date. \<forall>row \<in> set (selectPending date (processPayment payment w)).
               p_ID row \<noteq> p_ID payment))
       \<and> (\<forall>other. p_ID other \<noteq> p_ID payment \<longrightarrow>
            payment \<in> set (payment_schedules (processPayment other w)) \<and>
            credits (processPayment other w) (p_CreditID payment) \<noteq> None)"
proof -
  have i: "faults w = False # False # True # fs \<longrightarrow>
            same_tables w (processPayment payment w) \<and>
            (\<forall>date. p_PaymentDate payment \<le> date \<longrightarrow>
               payment \<in> set (selectPending date (processPayment payment w)))"
  proof
    assume fl: "faults w = False # False # True # fs"
    have st: "same_tables w (processPayment payment w)"
      using cr ac fl by (rule processPayment_begin_fails)
    have "\<forall>date. p_PaymentDate payment \<le> date \<longrightarrow> payment \<in> set (selectPending date w)"
      using row pend cr by (simp add: set_selectPending)
    then show "same_tables w (processPayment payment w) \<and>
            (\<forall>date. p_PaymentDate payment \<le> date \<longrightarrow>
               payment \<in> set (selectPending date (processPayment payment w)))"
      using st by (simp add: selectPending_same)
  qed
  have ii: "faults w = [] \<and>
          a_Balance account <
            p_TotalAmount due + (if p_IsOverdue due then p_PenaltyAmount due else 0) \<longrightarrow>
            (\<forall>date. \<forall>row \<in> set (selectPending date (processPayment payment w)).
               p_ID row \<noteq> p_ID payment)"
  proof (intro impI allI ballI)
    fix date row'
    assume h: "faults w = [] \<and>
          a_Balance account <
            p_TotalAmount due + (if p_IsOverdue due then p_PenaltyAmount due else 0)"
      and sel: "row' \<in> set (selectPending date (processPayment payment w))"
    obtain now w3 where tn: "time_Now w = (now, w3)" by (cases "time_Now w")
    have due': "due = UpdateScheduleStatus now payment" using due tn by simp
    define final where "final = (if p_PenaltyAmount due = 0
        then due\<lparr>p_Status := PaymentStatusOverdue, p_IsOverdue := True,
                 p_PenaltyAmount := p_TotalAmount due * (1 / 10)\<rparr>
        else due\<lparr>p_Status := PaymentStatusOverdue, p_IsOverdue := True\<rparr>)"
    have nf: "faults w = []" and short: "a_Balance account <
            p_TotalAmount due + (if p_IsOverdue due then p_PenaltyAmount due else 0)"
      using h by simp_all
    note step = processPayment_insufficient_step [OF nf row cr ac tn due' short final_def]
    have ff: "p_ID final = p_ID payment" "p_Status final = PaymentStatusOverdue"
      by (simp_all add: final_def due' UpdateScheduleStatus_frame)
    have rows: "payment_schedules (processPayment payment w) =
        map (set_schedule final) (payment_schedules w)"
      by (simp add: step)
    obtain r where r: "r \<in> set (payment_schedules w)" "row' = set_schedule final r"
      using sel by (auto simp add: set_selectPending rows)
    have st: "p_Status row' = PaymentStatusPending" using sel by (simp add: set_selectPending)
    show "p_ID row' \<noteq> p_ID payment"
    proof
      assume "p_ID row' = p_ID payment"
      then have "p_ID r = p_ID final" using r(2) ff by (simp add: set_schedule_id)
      then have "p_Status row' = PaymentStatusOverdue"
        using r(2) ff by (simp add: set_schedule_status)
      then show False using st by simp
    qed
  qed
  have iii: "\<forall>other. p_ID other \<noteq> p_ID payment \<longrightarrow>
            payment \<in> set (payment_schedules (processPayment other w)) \<and>
            credits (processPayment other w) (p_CreditID payment) \<noteq> None"
    using row cr by (simp add: processPayment_keeps processPayment_credits_dom)
  show ?thesis using i ii iii by blast
qed

theorem processPayment_retry_witness:
  "installment100 \<in> set (payment_schedules world0)
   \<and> payment_schedules (processPayment installment100 world0_begin_fails) = [installment100]
   \<and> selectPending (24 * Hour) (processPayment installment100 world0_begin_fails) = [installment100]
   \<and> map p_Status (payment_schedules (processPayment installment100 world0_short)) =
        [PaymentStatusOverdue]
   \<and> selectPending (24 * Hour) (processPayment installment100 world0_short) = []"
  using processPayment_retry [of installment100 world0_begin_fails credit10 account1 _ "[]"]
    processPayment_retry [of installment100 world0_short credit10 "account1\<lparr>a_Balance := 99.99\<rparr>"]
  by (simp add: processPayment_def db_defs Let_def world0_def world0_short_def world0_begin_fails_def
     UpdateScheduleStatus_installment100 account1_def credit10_def installment100_sel Hour_nonneg)

text \<open>
  The claim as stated fails for an installment that could not be paid: after the sweep
  over an account one cent short the installment is OVERDUE; once the account is filled
  up to 1000 the fetch returns nothing, and the next sweep collects nothing.
\<close>

theorem ProcessPayments_overdue_not_retried_counterexample:
  "map_option a_Balance (accounts world0_short 1) = Some 99.99
   \<and> map p_Status (payment_schedules (snd (ProcessPayments world0_short))) = [PaymentStatusOverdue]
   \<and> map_option a_Balance (accounts world0_topped_up 1) = Some 1000
   \<and> fst (GetPendingPayments (clock world0_topped_up) world0_topped_up) = Inr []
   \<and> map p_Status (payment_schedules (snd (ProcessPayments world0_topped_up))) =
        [PaymentStatusOverdue]
   \<and> transactions (snd (ProcessPayments world0_topped_up)) = []
   \<and> map_option a_Balance (accounts (snd (ProcessPayments world0_topped_up)) 1) = Some 1000"
  using sweep_world0_short
  by (simp add: world0_topped_up_def ProcessPayments_def GetPendingPayments_def selectPending_def
      driver_call_def time_Now_def world0_short_def world0_def account1_def)

end
